theory Spec2Isabelle
  imports Main "HOL-Library.AList"
begin

section \<open>Python values and the operations the detector applies to them\<close>

text \<open>
  The detector works on the values \<^verbatim>\<open>json.load\<close> and \<^verbatim>\<open>Response.json()\<close> return:
  \<^verbatim>\<open>None\<close>, booleans, integers, strings, lists and dictionaries. A dictionary is an
  association list in insertion order, read with \<^const>\<open>map_of\<close>. JSON numbers with a
  fraction or an exponent (Python floats) are not part of the model.
\<close>

datatype json =
    JNull
  | JBool bool
  | JInt int
  | JStr string
  | JArr "json list"
  | JObj "(string \<times> json) list"

text \<open>The exceptions that the modelled code can raise.\<close>

datatype py_error = AttributeError | KeyError | TypeError | OSError | UnicodeDecodeError

text \<open>Truth value of an object, as tested by \<^verbatim>\<open>not x\<close>, \<^verbatim>\<open>x or y\<close> and \<^verbatim>\<open>if x\<close>.\<close>

fun truthy :: "json \<Rightarrow> bool" where
  "truthy JNull = False"
| "truthy (JBool b) = b"
| "truthy (JInt n) = (n \<noteq> 0)"
| "truthy (JStr s) = (s \<noteq> [])"
| "truthy (JArr xs) = (xs \<noteq> [])"
| "truthy (JObj kvs) = (kvs \<noteq> [])"

text \<open>\<^verbatim>\<open>d.get(k, default)\<close> on a dictionary.\<close>

definition dict_get :: "(string \<times> json) list \<Rightarrow> string \<Rightarrow> json \<Rightarrow> json" where
  "dict_get kvs k dflt = (case map_of kvs k of None \<Rightarrow> dflt | Some v \<Rightarrow> v)"

text \<open>
  \<^verbatim>\<open>x.get(k, default)\<close> on any value: only a dictionary has the method, every other
  value raises AttributeError.
\<close>

fun py_get :: "json \<Rightarrow> string \<Rightarrow> json \<Rightarrow> py_error + json" where
  "py_get (JObj kvs) k dflt = Inr (dict_get kvs k dflt)"
| "py_get _ k dflt = Inl AttributeError"

text \<open>
  \<^verbatim>\<open>x[k]\<close> with a string key: KeyError on a dictionary without the key, TypeError on
  every other value (a list or string wants an integer index, the rest is not subscriptable).
\<close>

fun py_getitem :: "json \<Rightarrow> string \<Rightarrow> py_error + json" where
  "py_getitem (JObj kvs) k = (case map_of kvs k of None \<Rightarrow> Inl KeyError | Some v \<Rightarrow> Inr v)"
| "py_getitem _ k = Inl TypeError"

text \<open>\<^verbatim>\<open>x[k] = v\<close> with a string key: an existing key keeps its place, a new one goes last.\<close>

fun py_setitem :: "json \<Rightarrow> string \<Rightarrow> json \<Rightarrow> py_error + json" where
  "py_setitem (JObj kvs) k v = Inr (JObj (AList.update k v kvs))"
| "py_setitem _ k v = Inl TypeError"

text \<open>
  \<^verbatim>\<open>for item in x\<close>: a list yields its items, a dictionary its keys, a string its
  characters (as one-character strings); the other values are not iterable.
\<close>

fun py_iter :: "json \<Rightarrow> py_error + json list" where
  "py_iter (JArr xs) = Inr xs"
| "py_iter (JObj kvs) = Inr (map (\<lambda>kv. JStr (fst kv)) kvs)"
| "py_iter (JStr s) = Inr (map (\<lambda>c. JStr [c]) s)"
| "py_iter _ = Inl TypeError"

text \<open>\<^verbatim>\<open>x.append(v)\<close>: only a list has the method.\<close>

fun py_append :: "json \<Rightarrow> json \<Rightarrow> py_error + json" where
  "py_append (JArr xs) v = Inr (JArr (xs @ [v]))"
| "py_append _ v = Inl AttributeError"

text \<open>
  Members of a Python \<^verbatim>\<open>set\<close> are compared by hash and equality. Lists and dictionaries
  are unhashable (TypeError); \<^verbatim>\<open>True\<close> and \<^verbatim>\<open>1\<close>, and \<^verbatim>\<open>False\<close> and \<^verbatim>\<open>0\<close>, are the
  same member. \<open>norm_key\<close> picks the integer as the representative, so that a Python set
  is the HOL set of the representatives of its members.
\<close>

fun hashable :: "json \<Rightarrow> bool" where
  "hashable (JArr xs) = False"
| "hashable (JObj kvs) = False"
| "hashable _ = True"

fun norm_key :: "json \<Rightarrow> json" where
  "norm_key (JBool b) = JInt (if b then 1 else 0)"
| "norm_key v = v"

definition py_key :: "json \<Rightarrow> py_error + json" where
  "py_key v = (if hashable v then Inr (norm_key v) else Inl TypeError)"

text \<open>\<^verbatim>\<open>a or b\<close>: the left operand if it is true, else the right one, evaluated only then.\<close>

definition py_or :: "json \<Rightarrow> py_error + json \<Rightarrow> py_error + json" where
  "py_or a b = (if truthy a then Inr a else b)"

section \<open>Risk classification\<close>

datatype risk = LOW | MEDIUM | HIGH | UNKNOWN

text \<open>\<^verbatim>\<open>classify_risk(score_normalised: int | None, threshold: int)\<close>.\<close>

definition classify_risk :: "int option \<Rightarrow> int \<Rightarrow> risk" where
  "classify_risk score_normalised threshold =
     (case score_normalised of
        None \<Rightarrow> UNKNOWN
      | Some s \<Rightarrow>
          if s > threshold then LOW
          else if s \<ge> 50 then MEDIUM
          else HIGH)"

text \<open>
  \<^verbatim>\<open>classify_risk\<close> applied to the value of \<^verbatim>\<open>summary.get("score_normalised")\<close>, with an
  integer threshold: \<^verbatim>\<open>None\<close> is the absent score, an integer is itself, a boolean is the
  integer 0 or 1, and comparing a string, a list or a dictionary with the integer threshold
  raises TypeError.
\<close>

fun classify_risk_json :: "json \<Rightarrow> int \<Rightarrow> py_error + risk" where
  "classify_risk_json JNull threshold = Inr (classify_risk None threshold)"
| "classify_risk_json (JInt n) threshold = Inr (classify_risk (Some n) threshold)"
| "classify_risk_json (JBool b) threshold = Inr (classify_risk (Some (if b then 1 else 0)) threshold)"
| "classify_risk_json _ threshold = Inl TypeError"

fun risk_name :: "risk \<Rightarrow> string" where
  "risk_name LOW = ''LOW''"
| "risk_name MEDIUM = ''MEDIUM''"
| "risk_name HIGH = ''HIGH''"
| "risk_name UNKNOWN = ''UNKNOWN''"

section \<open>Files\<close>

text \<open>
  What a read of a file finds. \<open>Absent\<close>: \<^verbatim>\<open>os.path.exists\<close> is false. \<open>Unreadable\<close>:
  the file exists and \<^verbatim>\<open>open\<close> or the read raises OSError. \<open>Undecodable\<close>: the bytes
  are not valid UTF-8, so the read inside \<^verbatim>\<open>json.load\<close> of a file opened with
  \<^verbatim>\<open>encoding="utf-8"\<close> raises UnicodeDecodeError, a ValueError that is neither
  json.JSONDecodeError nor OSError. \<open>Malformed\<close>: the text is not JSON, \<^verbatim>\<open>json.load\<close>
  raises json.JSONDecodeError. \<open>Content j\<close>: the text is the JSON document \<open>j\<close>.
\<close>

datatype file_state = Absent | Unreadable | Undecodable | Malformed | Content json

text \<open>
  A write (\<^verbatim>\<open>os.makedirs\<close>, \<^verbatim>\<open>open(..., "w")\<close>, \<^verbatim>\<open>json.dump\<close>) either succeeds and
  leaves the document in the file, or raises OSError; the flag \<open>writable\<close> says which.
\<close>

definition load_json :: "file_state \<Rightarrow> py_error + json" where
  "load_json f =
     (case f of
        Absent \<Rightarrow> Inr (JArr [])
      | Unreadable \<Rightarrow> Inr (JArr [])
      | Malformed \<Rightarrow> Inr (JArr [])
      | Undecodable \<Rightarrow> Inl UnicodeDecodeError
      | Content j \<Rightarrow> Inr j)"

definition save_json :: "bool \<Rightarrow> json \<Rightarrow> py_error + file_state" where
  "save_json writable data = (if writable then Inr (Content data) else Inl OSError)"

text \<open>
  The set comprehension \<^verbatim>\<open>{item.get("mint") for item in existing if isinstance(item, dict)}\<close>
  over the items that iterating \<^verbatim>\<open>existing\<close> yields.
\<close>

fun existing_mints :: "json list \<Rightarrow> py_error + json set" where
  "existing_mints [] = Inr {}"
| "existing_mints (JObj kvs # items) =
     (case py_key (dict_get kvs ''mint'' JNull) of
        Inl e \<Rightarrow> Inl e
      | Inr k \<Rightarrow>
          (case existing_mints items of
             Inl e \<Rightarrow> Inl e
           | Inr ks \<Rightarrow> Inr (insert k ks)))"
| "existing_mints (_ # items) = existing_mints items"

text \<open>
  \<^verbatim>\<open>append_if_not_exists(file_path, entry: Dict)\<close>. The result is the new state of the
  file, or the exception raised.
\<close>

definition append_if_not_exists ::
  "bool \<Rightarrow> file_state \<Rightarrow> (string \<times> json) list \<Rightarrow> py_error + file_state" where
  "append_if_not_exists writable f entry =
     (case load_json f of
        Inl e \<Rightarrow> Inl e
      | Inr existing \<Rightarrow>
     (case py_iter existing of
        Inl e \<Rightarrow> Inl e
      | Inr items \<Rightarrow>
     (case existing_mints items of
        Inl e \<Rightarrow> Inl e
      | Inr mints \<Rightarrow>
     (case py_key (dict_get entry ''mint'' JNull) of
        Inl e \<Rightarrow> Inl e
      | Inr k \<Rightarrow>
          if k \<notin> mints then
            (case py_append existing (JObj entry) of
               Inl e \<Rightarrow> Inl e
             | Inr existing' \<Rightarrow> save_json writable existing')
          else Inr f))))"

text \<open>
  The items of a stored list that are dictionaries whose mint is the set member \<open>k\<close>:
  the entries that \<^verbatim>\<open>append_if_not_exists\<close> takes to be stored under that mint.
\<close>

definition entries_with_mint :: "json \<Rightarrow> json list \<Rightarrow> json list" where
  "entries_with_mint k items =
     filter (\<lambda>item. case item of
                      JObj kvs \<Rightarrow> py_key (dict_get kvs ''mint'' JNull) = Inr k
                    | _ \<Rightarrow> False) items"

text \<open>
  The mints of the dictionaries in a stored list, in order, each as the set member it is
  or as the TypeError of an unhashable value.
\<close>

fun stored_mints :: "json list \<Rightarrow> (py_error + json) list" where
  "stored_mints [] = []"
| "stored_mints (JObj kvs # items) = py_key (dict_get kvs ''mint'' JNull) # stored_mints items"
| "stored_mints (_ # items) = stored_mints items"

text \<open>
  The states of the backing file that respect the invariant of the store: no file yet, a
  file that reads as the empty list, or a list in which the mints of the entries are
  hashable and pairwise different.
\<close>

definition well_formed_store :: "file_state \<Rightarrow> bool" where
  "well_formed_store f =
     (case f of
        Absent \<Rightarrow> True
      | Unreadable \<Rightarrow> True
      | Malformed \<Rightarrow> True
      | Undecodable \<Rightarrow> False
      | Content j \<Rightarrow>
          (case j of
             JArr items \<Rightarrow> Inl TypeError \<notin> set (stored_mints items) \<and> distinct (stored_mints items)
           | _ \<Rightarrow> False))"

section \<open>Configuration\<close>

text \<open>
  \<^verbatim>\<open>DEFAULT_CONFIG\<close> is a module-level dictionary. \<^verbatim>\<open>load_config\<close> returns that object
  itself, not a copy, when it falls back to the defaults, and \<^verbatim>\<open>edit_configuration\<close>
  assigns into the dictionary it got; so the dictionary can change while the program runs.
  The constant below is its value when the module is loaded. The functions that read or
  write the dictionary take its current value as the argument \<open>default_config\<close>.
\<close>

definition DEFAULT_CONFIG :: json where
  "DEFAULT_CONFIG =
     JObj [(''score_threshold'', JInt 81), (''polling_interval'', JInt 30), (''api_timeout'', JInt 30)]"

definition save_config :: "bool \<Rightarrow> json \<Rightarrow> py_error + file_state" where
  "save_config writable config = (if writable then Inr (Content config) else Inl OSError)"

text \<open>
  \<^verbatim>\<open>load_config()\<close>: the dictionary it returns, whether that dictionary is the module's
  \<^verbatim>\<open>DEFAULT_CONFIG\<close> object itself (\<open>True\<close>) or a new one parsed from the file
  (\<open>False\<close>), and the state of the configuration file afterwards (a missing file is
  created with the current defaults).
\<close>

definition load_config ::
  "bool \<Rightarrow> json \<Rightarrow> file_state \<Rightarrow> py_error + (json \<times> bool) \<times> file_state" where
  "load_config writable default_config f =
     (case f of
        Absent \<Rightarrow>
          (case save_config writable default_config of
             Inl e \<Rightarrow> Inl e
           | Inr f' \<Rightarrow> Inr ((default_config, True), f'))
      | Unreadable \<Rightarrow> Inr ((default_config, True), f)
      | Malformed \<Rightarrow> Inr ((default_config, True), f)
      | Undecodable \<Rightarrow> Inl UnicodeDecodeError
      | Content j \<Rightarrow> Inr ((j, False), f))"

text \<open>
  The first three lines of \<^verbatim>\<open>start_monitoring\<close>: the configuration is loaded and the
  threshold and the polling interval are read from it with \<^verbatim>\<open>config[...]\<close>.
\<close>

definition start_monitoring_config ::
  "bool \<Rightarrow> json \<Rightarrow> file_state \<Rightarrow> py_error + (json \<times> json) \<times> file_state" where
  "start_monitoring_config writable default_config f =
     (case load_config writable default_config f of
        Inl e \<Rightarrow> Inl e
      | Inr ((config, is_default), f') \<Rightarrow>
     (case py_getitem config ''score_threshold'' of
        Inl e \<Rightarrow> Inl e
      | Inr threshold \<Rightarrow>
     (case py_getitem config ''polling_interval'' of
        Inl e \<Rightarrow> Inl e
      | Inr interval \<Rightarrow> Inr ((threshold, interval), f'))))"

section \<open>The two remote endpoints\<close>

text \<open>
  A request is the endpoint it goes to (for the summary endpoint, with the mint formatted
  into the URL) and the \<^verbatim>\<open>timeout\<close> argument of \<^verbatim>\<open>requests.get\<close>. Its outcome is a
  \<^verbatim>\<open>requests.RequestException\<close> raised by \<^verbatim>\<open>requests.get\<close>, or a response with a status
  code and a body; the body is \<open>None\<close> when it is not JSON, and \<^verbatim>\<open>Response.json()\<close> then
  raises \<^verbatim>\<open>requests.exceptions.JSONDecodeError\<close>, a RequestException too.
\<close>

datatype endpoint = NEW_TOKENS_ENDPOINT | SUMMARY_ENDPOINT json

record request =
  url :: endpoint
  timeout :: int

datatype http_result = RequestException | Response nat "json option"

text \<open>The network answers the \<open>n\<close>-th request of a run, whatever that request is.\<close>

type_synonym network = "nat \<Rightarrow> request \<Rightarrow> http_result"

section \<open>The console report\<close>

text \<open>
  The values that \<^verbatim>\<open>format_report\<close> formats into the lines of the report, in the order
  of the lines; how Python renders a value as text is not modelled.
\<close>

record report =
  r_name :: json
  r_symbol :: json
  r_mint :: json
  r_creator :: json
  r_detected_at :: string
  r_score_display :: json
  r_risk :: risk
  r_recommendation :: string
  r_reasons :: "(json \<times> json \<times> json) list"

fun recommendation :: "risk \<Rightarrow> string" where
  "recommendation LOW = ''SAFE_TO_BUY''"
| "recommendation MEDIUM = ''CAUTION_ADVISED''"
| "recommendation HIGH = ''HIGH_RISK_DONT_BUY''"
| "recommendation UNKNOWN = ''CAUTION_ADVISED''"

text \<open>Sequencing of steps that may raise: the first exception ends the computation.\<close>

definition and_then :: "'e + 'a \<Rightarrow> ('a \<Rightarrow> 'e + 'b) \<Rightarrow> 'e + 'b" where
  "and_then m f = (case m of Inl e \<Rightarrow> Inl e | Inr x \<Rightarrow> f x)"

text \<open>\<^verbatim>\<open>summary.get("tokenMeta", {}).get(k, default)\<close>.\<close>

definition token_meta_get :: "json \<Rightarrow> string \<Rightarrow> json \<Rightarrow> py_error + json" where
  "token_meta_get summary k dflt =
     and_then (py_get summary ''tokenMeta'' (JObj [])) (\<lambda>meta. py_get meta k dflt)"

text \<open>The loop over \<^verbatim>\<open>risks_list\<close>: name, level and description of each risk item.\<close>

fun risk_reasons :: "json list \<Rightarrow> py_error + (json \<times> json \<times> json) list" where
  "risk_reasons [] = Inr []"
| "risk_reasons (risk_item # items) =
     and_then (py_get risk_item ''name'' (JStr ''Unknown Risk'')) (\<lambda>name.
     and_then (py_get risk_item ''description'' (JStr [])) (\<lambda>desc.
     and_then (py_get risk_item ''level'' (JStr [])) (\<lambda>level.
     and_then (risk_reasons items) (\<lambda>rest. Inr ((name, level, desc) # rest)))))"

definition format_report :: "json \<Rightarrow> json \<Rightarrow> string \<Rightarrow> int \<Rightarrow> py_error + report" where
  "format_report token summary detected_at threshold =
     and_then (py_get token ''mint'' (JStr ''Unknown'')) (\<lambda>mint.
     and_then (py_get token ''symbol'' JNull) (\<lambda>token_symbol.
     and_then (py_or token_symbol (token_meta_get summary ''symbol'' (JStr []))) (\<lambda>symbol.
     and_then (token_meta_get summary ''name''
                 (if truthy symbol then symbol else JStr ''Unknown Token'')) (\<lambda>name.
     and_then (py_get token ''creator'' JNull) (\<lambda>token_creator.
     and_then (py_or token_creator (py_get summary ''creator'' (JStr ''Unknown''))) (\<lambda>creator.
     and_then (py_get summary ''score_normalised'' JNull) (\<lambda>score_norm.
     and_then (classify_risk_json score_norm threshold) (\<lambda>risk.
     and_then (py_get summary ''risks'' JNull) (\<lambda>risks.
     and_then (if truthy risks then and_then (py_iter risks) risk_reasons else Inr []) (\<lambda>reasons.
       Inr \<lparr>r_name = name, r_symbol = symbol, r_mint = mint, r_creator = creator,
            r_detected_at = detected_at,
            r_score_display = (if score_norm \<noteq> JNull then score_norm else JStr ''N/A''),
            r_risk = risk, r_recommendation = recommendation risk,
            r_reasons = reasons\<rparr>))))))))))"

section \<open>The monitoring loop\<close>

text \<open>The dictionary \<^verbatim>\<open>entry = {...}\<close> that \<^verbatim>\<open>start_monitoring\<close> builds for a token.\<close>

definition make_entry ::
  "json \<Rightarrow> json \<Rightarrow> json \<Rightarrow> json \<Rightarrow> risk \<Rightarrow> string \<Rightarrow> py_error + (string \<times> json) list" where
  "make_entry token summary mint score_norm risk now_str =
     and_then (token_meta_get summary ''name'' (JStr [])) (\<lambda>name.
     and_then (py_get token ''symbol'' JNull) (\<lambda>token_symbol.
     and_then (py_or token_symbol (token_meta_get summary ''symbol'' (JStr []))) (\<lambda>symbol.
     and_then (py_get token ''creator'' JNull) (\<lambda>token_creator.
     and_then (py_or token_creator (py_get summary ''creator'' (JStr []))) (\<lambda>creator.
     and_then (py_get summary ''risks'' (JArr [])) (\<lambda>risks.
       Inr [(''mint'', mint), (''name'', name), (''symbol'', symbol), (''creator'', creator),
            (''score_normalised'', score_norm), (''risk'', JStr (risk_name risk)),
            (''risks'', risks), (''detected_at'', JStr now_str)]))))))"

text \<open>
  What the loop prints: the error line of \<^verbatim>\<open>fetch_new_tokens\<close>, the DEBUG line (symbol,
  score, threshold, risk), the SAVING line (symbol, score, threshold), the NOT SAVING line
  (symbol, score, risk), the formatted report and the blank line after it.
\<close>

datatype out =
    FetchError
  | Debug json json int risk
  | Saving json json int
  | NotSaving json json risk
  | Report report
  | BlankLine

text \<open>
  The state of a run of \<^verbatim>\<open>start_monitoring\<close>: the set \<^verbatim>\<open>processed\<close>, the file
  \<^verbatim>\<open>safe_to_buy.json\<close>, the requests sent so far in order, and what was printed.
\<close>

record mstate =
  processed :: "json set"
  store_file :: file_state
  http_log :: "request list"
  console :: "out list"

definition fetch_new_tokens :: "network \<Rightarrow> mstate \<Rightarrow> json \<times> mstate" where
  "fetch_new_tokens net s =
     (let rq = \<lparr>url = NEW_TOKENS_ENDPOINT, timeout = 30\<rparr>;
          s' = s\<lparr>http_log := http_log s @ [rq]\<rparr>;
          failed = (JArr [], s'\<lparr>console := console s' @ [FetchError]\<rparr>)
      in case net (length (http_log s)) rq of
           RequestException \<Rightarrow> failed
         | Response status body \<Rightarrow>
             if 400 \<le> status \<and> status < 600 then failed
             else (case body of None \<Rightarrow> failed | Some j \<Rightarrow> (j, s')))"

definition fetch_token_summary :: "network \<Rightarrow> json \<Rightarrow> mstate \<Rightarrow> json \<times> mstate" where
  "fetch_token_summary net mint s =
     (let rq = \<lparr>url = SUMMARY_ENDPOINT mint, timeout = 30\<rparr>;
          s' = s\<lparr>http_log := http_log s @ [rq]\<rparr>
      in case net (length (http_log s)) rq of
           RequestException \<Rightarrow> (JObj [], s')
         | Response status body \<Rightarrow>
             if status = 200 then (case body of None \<Rightarrow> (JObj [], s') | Some j \<Rightarrow> (j, s'))
             else (JObj [], s'))"

text \<open>
  The body of the token loop after the mint is marked processed: classification, the entry,
  the store and the report. The result is the state reached and the exception that ended
  the run there, if any. A failed write leaves the file as it was.
\<close>

definition handle_summary ::
  "bool \<Rightarrow> int \<Rightarrow> string \<Rightarrow> json \<Rightarrow> json \<Rightarrow> json \<Rightarrow> mstate \<Rightarrow> mstate \<times> py_error option" where
  "handle_summary writable threshold now_str token mint summary s =
     (case py_get summary ''score_normalised'' JNull of
        Inl e \<Rightarrow> (s, Some e)
      | Inr score_norm \<Rightarrow>
     (case classify_risk_json score_norm threshold of
        Inl e \<Rightarrow> (s, Some e)
      | Inr risk \<Rightarrow>
     (case py_get token ''symbol'' (JStr ''Unknown'') of
        Inl e \<Rightarrow> (s, Some e)
      | Inr shown_symbol \<Rightarrow>
     (let s1 = s\<lparr>console := console s @ [Debug shown_symbol score_norm threshold risk]\<rparr> in
      case make_entry token summary mint score_norm risk now_str of
        Inl e \<Rightarrow> (s1, Some e)
      | Inr entry \<Rightarrow>
     (case (if risk = LOW then
              (let s2 = s1\<lparr>console := console s1 @ [Saving shown_symbol score_norm threshold]\<rparr> in
               case append_if_not_exists writable (store_file s2) entry of
                 Inl e \<Rightarrow> (s2, Some e)
               | Inr f \<Rightarrow> (s2\<lparr>store_file := f\<rparr>, None))
            else (s1\<lparr>console := console s1 @ [NotSaving shown_symbol score_norm risk]\<rparr>, None)) of
        (s3, Some e) \<Rightarrow> (s3, Some e)
      | (s3, None) \<Rightarrow>
     (case format_report token summary now_str threshold of
        Inl e \<Rightarrow> (s3, Some e)
      | Inr rep \<Rightarrow> (s3\<lparr>console := console s3 @ [Report rep, BlankLine]\<rparr>, None)))))))"

text \<open>One pass of the body of \<^verbatim>\<open>for token in tokens\<close>.\<close>

definition process_token ::
  "network \<Rightarrow> bool \<Rightarrow> int \<Rightarrow> string \<Rightarrow> json \<Rightarrow> mstate \<Rightarrow> mstate \<times> py_error option" where
  "process_token net writable threshold now_str token s =
     (case py_get token ''mint'' JNull of
        Inl e \<Rightarrow> (s, Some e)
      | Inr mint \<Rightarrow>
          if \<not> truthy mint then (s, None)
          else
            (case py_key mint of
               Inl e \<Rightarrow> (s, Some e)
             | Inr k \<Rightarrow>
                 if k \<in> processed s then (s, None)
                 else
                   (case fetch_token_summary net mint s of
                      (summary, s1) \<Rightarrow>
                        if \<not> truthy summary then (s1\<lparr>processed := insert k (processed s1)\<rparr>, None)
                        else handle_summary writable threshold now_str token mint summary
                               (s1\<lparr>processed := insert k (processed s1)\<rparr>))))"

fun process_tokens ::
  "network \<Rightarrow> bool \<Rightarrow> int \<Rightarrow> string \<Rightarrow> json list \<Rightarrow> mstate \<Rightarrow> mstate \<times> py_error option" where
  "process_tokens net writable threshold now_str [] s = (s, None)"
| "process_tokens net writable threshold now_str (token # tokens) s =
     (case process_token net writable threshold now_str token s of
        (s', Some e) \<Rightarrow> (s', Some e)
      | (s', None) \<Rightarrow> process_tokens net writable threshold now_str tokens s')"

text \<open>One polling cycle: the body of \<^verbatim>\<open>while True\<close>, with the time read in that cycle.\<close>

definition poll_cycle ::
  "network \<Rightarrow> bool \<Rightarrow> int \<Rightarrow> string \<Rightarrow> mstate \<Rightarrow> mstate \<times> py_error option" where
  "poll_cycle net writable threshold now_str s =
     (case fetch_new_tokens net s of
        (tokens, s1) \<Rightarrow>
          (case py_iter tokens of
             Inl e \<Rightarrow> (s1, Some e)
           | Inr items \<Rightarrow> process_tokens net writable threshold now_str items s1))"

text \<open>
  The loop never ends by itself. A run is modelled by the cycles it completes before it is
  interrupted, one per time stamp given, or by the cycles up to the exception that ends it.
\<close>

fun monitor_loop ::
  "network \<Rightarrow> bool \<Rightarrow> int \<Rightarrow> string list \<Rightarrow> mstate \<Rightarrow> mstate \<times> py_error option" where
  "monitor_loop net writable threshold [] s = (s, None)"
| "monitor_loop net writable threshold (now_str # later) s =
     (case poll_cycle net writable threshold now_str s of
        (s', Some e) \<Rightarrow> (s', Some e)
      | (s', None) \<Rightarrow> monitor_loop net writable threshold later s')"

text \<open>The state in which the loop starts: \<^verbatim>\<open>processed = set()\<close>, nothing sent or printed.\<close>

definition initial_state :: "file_state \<Rightarrow> mstate" where
  "initial_state store = \<lparr>processed = {}, store_file = store, http_log = [], console = []\<rparr>"

text \<open>The mints of the summary requests among the requests sent, in order.\<close>

fun summary_fetches :: "request list \<Rightarrow> json list" where
  "summary_fetches [] = []"
| "summary_fetches (rq # rqs) =
     (case url rq of
        NEW_TOKENS_ENDPOINT \<Rightarrow> summary_fetches rqs
      | SUMMARY_ENDPOINT mint \<Rightarrow> mint # summary_fetches rqs)"

text \<open>
  The invariant of the loop behind the at-most-once fetch: the mints of the summary
  requests sent so far are pairwise different as set members, and all are in
  \<^verbatim>\<open>processed\<close>.
\<close>

definition fetched_once :: "mstate \<Rightarrow> bool" where
  "fetched_once s =
     (distinct (map norm_key (summary_fetches (http_log s))) \<and>
      norm_key ` set (summary_fetches (http_log s)) \<subseteq> processed s)"

section \<open>Editing the configuration\<close>

text \<open>
  What \<^verbatim>\<open>edit_configuration\<close> prints: the menu with the three current values, and the
  answer to an edit.
\<close>

datatype edit_out =
    Menu json json json
  | ThresholdUpdated int
  | ThresholdOutOfRange
  | IntervalUpdated int
  | IntervalOutOfRange
  | TimeoutUpdated int
  | TimeoutOutOfRange
  | InvalidNumber
  | InvalidOption

text \<open>
  The state of \<^verbatim>\<open>edit_configuration\<close>: the dictionary \<^verbatim>\<open>config\<close>, whether it is the
  module's \<^verbatim>\<open>DEFAULT_CONFIG\<close> object itself, the current value of \<^verbatim>\<open>DEFAULT_CONFIG\<close>,
  the file \<^verbatim>\<open>config.json\<close> and what was printed.
\<close>

record edit_state =
  config :: json
  config_is_default :: bool
  default_dict :: json
  config_file :: file_state
  messages :: "edit_out list"

definition say :: "edit_out \<Rightarrow> edit_state \<Rightarrow> edit_state" where
  "say msg st = st\<lparr>messages := messages st @ [msg]\<rparr>"

text \<open>
  The accepting branch of an edit: \<^verbatim>\<open>config[k] = n\<close>, \<^verbatim>\<open>save_config(config)\<close>, and the
  confirmation. The assignment changes the dictionary in place: when \<^verbatim>\<open>config\<close> is the
  \<^verbatim>\<open>DEFAULT_CONFIG\<close> object, the defaults change with it.
\<close>

definition update_setting ::
  "bool \<Rightarrow> string \<Rightarrow> int \<Rightarrow> edit_out \<Rightarrow> edit_state \<Rightarrow> py_error + edit_state" where
  "update_setting writable k n msg st =
     and_then (py_setitem (config st) k (JInt n)) (\<lambda>c.
     and_then (save_config writable c) (\<lambda>f.
       Inr (say msg
         (st\<lparr>config := c,
             default_dict := (if config_is_default st then c else default_dict st),
             config_file := f\<rparr>))))"

text \<open>
  One turn of the loop of \<^verbatim>\<open>edit_configuration\<close>: the menu is printed (reading the three
  keys with \<^verbatim>\<open>config[...]\<close>), then the choice is handled. \<open>entered\<close> is the outcome of
  \<^verbatim>\<open>int(input(...))\<close>: the integer, or \<open>None\<close> for the ValueError of a text that is
  not a number.
\<close>

definition edit_configuration_step ::
  "bool \<Rightarrow> string \<Rightarrow> int option \<Rightarrow> edit_state \<Rightarrow> py_error + edit_state" where
  "edit_configuration_step writable choice entered st =
     and_then (py_getitem (config st) ''score_threshold'') (\<lambda>threshold.
     and_then (py_getitem (config st) ''polling_interval'') (\<lambda>interval.
     and_then (py_getitem (config st) ''api_timeout'') (\<lambda>api_timeout.
       let st1 = say (Menu threshold interval api_timeout) st in
       if choice = ''1'' then
         (case entered of
            None \<Rightarrow> Inr (say InvalidNumber st1)
          | Some new_threshold \<Rightarrow>
              if 1 \<le> new_threshold \<and> new_threshold \<le> 100
              then update_setting writable ''score_threshold'' new_threshold
                     (ThresholdUpdated new_threshold) st1
              else Inr (say ThresholdOutOfRange st1))
       else if choice = ''2'' then
         (case entered of
            None \<Rightarrow> Inr (say InvalidNumber st1)
          | Some new_interval \<Rightarrow>
              if 5 \<le> new_interval \<and> new_interval \<le> 300
              then update_setting writable ''polling_interval'' new_interval
                     (IntervalUpdated new_interval) st1
              else Inr (say IntervalOutOfRange st1))
       else if choice = ''3'' then
         (case entered of
            None \<Rightarrow> Inr (say InvalidNumber st1)
          | Some new_timeout \<Rightarrow>
              if 10 \<le> new_timeout \<and> new_timeout \<le> 120
              then update_setting writable ''api_timeout'' new_timeout
                     (TimeoutUpdated new_timeout) st1
              else Inr (say TimeoutOutOfRange st1))
       else if choice = ''4'' then Inr st1
       else Inr (say InvalidOption st1))))"

text \<open>The loop, over the choices and numbers the user enters; choice 4 leaves it.\<close>

fun edit_configuration_loop ::
  "bool \<Rightarrow> (string \<times> int option) list \<Rightarrow> edit_state \<Rightarrow> py_error + edit_state" where
  "edit_configuration_loop writable [] st = Inr st"
| "edit_configuration_loop writable ((choice, entered) # later) st =
     and_then (edit_configuration_step writable choice entered st) (\<lambda>st'.
       if choice = ''4'' then Inr st' else edit_configuration_loop writable later st')"

definition edit_configuration ::
  "bool \<Rightarrow> (string \<times> int option) list \<Rightarrow> json \<Rightarrow> file_state \<Rightarrow> py_error + edit_state" where
  "edit_configuration writable entries default_config f =
     and_then (load_config writable default_config f) (\<lambda>((c, is_default), f').
       edit_configuration_loop writable entries
         \<lparr>config = c, config_is_default = is_default, default_dict = default_config,
          config_file = f', messages = []\<rparr>)"

section \<open>Properties of the risk classification\<close>

text \<open>
  C1, as the code has it. With an integer score \<open>s\<close> and a threshold \<open>t\<close>, the result is
  LOW exactly when \<open>s > t\<close>, MEDIUM exactly when \<open>50 \<le> s \<le> t\<close>, and HIGH exactly when
  \<open>s < 50\<close> and \<open>s \<le> t\<close> (the test against the threshold comes first); an absent score
  gives UNKNOWN.
\<close>

theorem classify_risk_tiers:
  "(classify_risk (Some s) t = LOW) = (s > t) \<and>
   (classify_risk (Some s) t = MEDIUM) = (50 \<le> s \<and> s \<le> t) \<and>
   (classify_risk (Some s) t = HIGH) = (s < 50 \<and> s \<le> t) \<and>
   classify_risk None t = UNKNOWN"
  by (auto simp: classify_risk_def)

text \<open>
  C1 as the specification words it, HIGH exactly when \<open>s < 50\<close>, fails for a
  threshold below 49: the score 45 under the threshold 40 is below 50 and is LOW.
\<close>

theorem classify_risk_high_counterexample:
  "(45::int) < 50 \<and> classify_risk (Some 45) 40 = LOW \<and> classify_risk (Some 45) 40 \<noteq> HIGH"
  by (simp add: classify_risk_def)

section \<open>Sequencing\<close>

lemma and_then_simps:
  "and_then (Inl e) f = Inl e"
  "and_then (Inr x) f = f x"
  by (simp_all add: and_then_def)

section \<open>Properties of the requests\<close>

text \<open>
  C3 fails on the code. With a configuration file that sets \<^verbatim>\<open>api_timeout\<close> to 60, the
  value \<^verbatim>\<open>load_config\<close> returns for the key is 60, and the discovery request and the
  summary request are both sent with the timeout 30: neither \<^verbatim>\<open>fetch_new_tokens\<close> nor
  \<^verbatim>\<open>fetch_token_summary\<close> reads the configuration.
\<close>

theorem fetch_timeout_is_hard_coded:
  "and_then
     (load_config writable default_config
        (Content (JObj [(''score_threshold'', JInt 81), (''polling_interval'', JInt 30),
                        (''api_timeout'', JInt 60)])))
     (\<lambda>((c, is_default), f). py_getitem c ''api_timeout'') = Inr (JInt 60) \<and>
   http_log (snd (fetch_new_tokens net (initial_state store))) =
     [\<lparr>url = NEW_TOKENS_ENDPOINT, timeout = 30\<rparr>] \<and>
   http_log (snd (fetch_token_summary net mint (initial_state store))) =
     [\<lparr>url = SUMMARY_ENDPOINT mint, timeout = 30\<rparr>]"
  by (simp add: load_config_def and_then_simps fetch_new_tokens_def fetch_token_summary_def
      initial_state_def Let_def split: http_result.split option.split)

section \<open>Properties of the record store\<close>

text \<open>
  C6 fails on the code for one kind of corrupt file. When the bytes of the backing file are
  not valid UTF-8, \<^verbatim>\<open>load_json\<close> raises UnicodeDecodeError, which its \<^verbatim>\<open>except\<close> clause
  does not catch, and \<^verbatim>\<open>append_if_not_exists\<close> fails with it instead of treating the
  collection as empty.
\<close>

theorem append_undecodable_raises:
  "append_if_not_exists writable Undecodable entry = Inl UnicodeDecodeError"
  by (simp add: append_if_not_exists_def load_json_def)

text \<open>
  The rest of the failure semantics holds. A file that is absent, that cannot be opened or
  that holds no JSON is read as the empty list, so the entry becomes the only one written.
\<close>

lemma append_read_failure_as_empty:
  assumes "f \<in> {Absent, Unreadable, Malformed}" and "hashable (dict_get entry ''mint'' JNull)"
  shows "append_if_not_exists writable f entry = save_json writable (JArr [JObj entry])"
  using assms by (auto simp: append_if_not_exists_def load_json_def py_key_def)

text \<open>When the entry is new and the write fails, the OSError reaches the caller.\<close>

lemma append_write_failure_propagates:
  assumes "load_json f = Inr (JArr items)" and "existing_mints items = Inr mints"
    and "py_key (dict_get entry ''mint'' JNull) = Inr k" and "k \<notin> mints"
  shows "append_if_not_exists False f entry = Inl OSError"
  using assms by (simp add: append_if_not_exists_def save_json_def)

section \<open>Properties of the configuration\<close>

text \<open>
  C10, as the code has it. A configuration file that parses is returned by
  \<^verbatim>\<open>load_config\<close> as the parsed document, a new object and not the defaults, whatever
  its keys and values and whatever the defaults are, and the file is left as it is. The
  start of the monitor then reads \<^verbatim>\<open>score_threshold\<close> and \<^verbatim>\<open>polling_interval\<close> from
  that document and never from the defaults: it raises KeyError when the document is a
  dictionary without one of the two keys, TypeError when the document is not a dictionary,
  and otherwise gets the two values as they are in the file.
\<close>

theorem load_config_verbatim:
  "load_config writable default_config (Content j) = Inr ((j, False), Content j) \<and>
   start_monitoring_config writable default_config (Content j) =
     (case j of
        JObj kvs \<Rightarrow>
          (case map_of kvs ''score_threshold'' of
             None \<Rightarrow> Inl KeyError
           | Some threshold \<Rightarrow>
               (case map_of kvs ''polling_interval'' of
                  None \<Rightarrow> Inl KeyError
                | Some interval \<Rightarrow> Inr ((threshold, interval), Content j)))
      | _ \<Rightarrow> Inl TypeError)"
  by (cases j) (simp_all add: load_config_def start_monitoring_config_def split: option.split)

text \<open>
  C10 at the configuration \<^verbatim>\<open>{"api_timeout": 30}\<close> with the defaults as loaded: it is
  returned unchanged and the monitor start raises KeyError.
\<close>

theorem load_config_verbatim_witness:
  "load_config True DEFAULT_CONFIG (Content (JObj [(''api_timeout'', JInt 30)])) =
     Inr ((JObj [(''api_timeout'', JInt 30)], False), Content (JObj [(''api_timeout'', JInt 30)])) \<and>
   start_monitoring_config True DEFAULT_CONFIG (Content (JObj [(''api_timeout'', JInt 30)])) =
     Inl KeyError"
  using load_config_verbatim [of True DEFAULT_CONFIG "JObj [(''api_timeout'', JInt 30)]"]
  by simp

text \<open>
  C10 as it is worded, a lookup error for every parsable configuration without the keys,
  fails: the configuration \<^verbatim>\<open>[]\<close> parses, is returned as it is, has neither key, and
  the monitor start raises TypeError, not KeyError.
\<close>

theorem start_monitoring_config_counterexample:
  "load_config True DEFAULT_CONFIG (Content (JArr [])) = Inr ((JArr [], False), Content (JArr [])) \<and>
   start_monitoring_config True DEFAULT_CONFIG (Content (JArr [])) = Inl TypeError \<and>
   start_monitoring_config True DEFAULT_CONFIG (Content (JArr [])) \<noteq> Inl KeyError"
  by (simp add: load_config_def start_monitoring_config_def)

text \<open>
  The defaults are used for a file that is missing, cannot be opened or does not parse,
  and they are the current value of the module's dictionary: 81 and 30 when the module
  is loaded.
\<close>

lemma start_monitoring_config_defaults:
  "start_monitoring_config writable DEFAULT_CONFIG Malformed = Inr ((JInt 81, JInt 30), Malformed)"
  by (simp add: load_config_def start_monitoring_config_def DEFAULT_CONFIG_def)

section \<open>Properties of the monitoring loop\<close>

lemmas model_defs = poll_cycle_def fetch_new_tokens_def fetch_token_summary_def process_token_def
  handle_summary_def make_entry_def format_report_def token_meta_get_def and_then_def py_or_def
  py_key_def dict_get_def append_if_not_exists_def load_json_def save_json_def classify_risk_def
  initial_state_def Let_def

lemma fetch_token_summary_state:
  "snd (fetch_token_summary net mint s) =
     s\<lparr>http_log := http_log s @ [\<lparr>url = SUMMARY_ENDPOINT mint, timeout = 30\<rparr>]\<rparr>"
  by (simp add: fetch_token_summary_def Let_def split: http_result.split option.split)

lemma fetch_new_tokens_log:
  "http_log (snd (fetch_new_tokens net s)) =
     http_log s @ [\<lparr>url = NEW_TOKENS_ENDPOINT, timeout = 30\<rparr>]"
  "processed (snd (fetch_new_tokens net s)) = processed s"
  by (simp_all add: fetch_new_tokens_def Let_def split: http_result.split option.split)

lemma handle_summary_keeps:
  "http_log (fst (handle_summary writable threshold now_str token mint summary s)) = http_log s"
  "processed (fst (handle_summary writable threshold now_str token mint summary s)) = processed s"
  by (simp_all add: handle_summary_def Let_def split: sum.split prod.split option.split)

text \<open>
  C4. A token of the discovery result with a mint that is true, hashable and not yet
  processed, whose summary fetch returns a false value (the empty dictionary that
  \<^verbatim>\<open>fetch_token_summary\<close> returns for an unavailable report is one): the step of the loop
  adds the mint to \<^verbatim>\<open>processed\<close> and sends the one summary request; nothing is printed,
  the file of the store is as before, and no exception is raised.
\<close>

theorem unavailable_summary_skips_token:
  assumes "py_get token ''mint'' JNull = Inr mint"
    and "truthy mint" and "hashable mint" and "norm_key mint \<notin> processed s"
    and "\<not> truthy (fst (fetch_token_summary net mint s))"
  shows "process_token net writable threshold now_str token s =
           (s\<lparr>http_log := http_log s @ [\<lparr>url = SUMMARY_ENDPOINT mint, timeout = 30\<rparr>],
              processed := insert (norm_key mint) (processed s)\<rparr>, None)"
proof -
  obtain summary s1 where f: "fetch_token_summary net mint s = (summary, s1)"
    by (cases "fetch_token_summary net mint s")
  from f assms(5) have "\<not> truthy summary" by simp
  moreover from f fetch_token_summary_state [of net mint s]
  have "s1 = s\<lparr>http_log := http_log s @ [\<lparr>url = SUMMARY_ENDPOINT mint, timeout = 30\<rparr>]\<rparr>"
    by simp
  ultimately show ?thesis
    using assms(1-4) f by (simp add: process_token_def py_key_def)
qed

text \<open>
  C4 at the token \<^verbatim>\<open>{"mint": "A"}\<close> in the first cycle of a run, with a network on which
  every request fails.
\<close>

theorem unavailable_summary_skips_token_witness:
  "process_token (\<lambda>n rq. RequestException) True 81 ''2025-01-01 00:00:00 UTC+01:00''
     (JObj [(''mint'', JStr ''A'')]) (initial_state Absent) =
     (\<lparr>processed = {JStr ''A''}, store_file = Absent,
       http_log = [\<lparr>url = SUMMARY_ENDPOINT (JStr ''A''), timeout = 30\<rparr>], console = []\<rparr>, None)"
  using unavailable_summary_skips_token [of "JObj [(''mint'', JStr ''A'')]" "JStr ''A''"
      "initial_state Absent" "\<lambda>n rq. RequestException" True 81 "''2025-01-01 00:00:00 UTC+01:00''"]
  by (simp add: dict_get_def initial_state_def fetch_token_summary_def)

text \<open>
  C9. When the summary endpoint answers 200 with the body \<^verbatim>\<open>{}\<close>,
  \<^verbatim>\<open>fetch_token_summary\<close> returns that empty dictionary, and the step of the loop does what
  it does for a failed request: the mint is added to \<^verbatim>\<open>processed\<close>, nothing is printed,
  classified or stored.
\<close>

theorem empty_summary_is_unavailable:
  assumes "py_get token ''mint'' JNull = Inr mint"
    and "truthy mint" and "hashable mint" and "norm_key mint \<notin> processed s"
    and "net (length (http_log s)) \<lparr>url = SUMMARY_ENDPOINT mint, timeout = 30\<rparr> =
           Response 200 (Some (JObj []))"
  shows "fst (fetch_token_summary net mint s) = JObj [] \<and>
         process_token net writable threshold now_str token s =
           (s\<lparr>http_log := http_log s @ [\<lparr>url = SUMMARY_ENDPOINT mint, timeout = 30\<rparr>],
              processed := insert (norm_key mint) (processed s)\<rparr>, None) \<and>
         process_token net writable threshold now_str token s =
           process_token (\<lambda>n rq. RequestException) writable threshold now_str token s"
  using assms
  by (simp add: process_token_def py_key_def fetch_token_summary_def Let_def)

text \<open>
  C9 at the token \<^verbatim>\<open>{"mint": "A"}\<close> in the first cycle of a run, with a network that
  answers every request with 200 and \<^verbatim>\<open>{}\<close>.
\<close>

theorem empty_summary_is_unavailable_witness:
  "fst (fetch_token_summary (\<lambda>n rq. Response 200 (Some (JObj []))) (JStr ''A'')
          (initial_state Absent)) = JObj [] \<and>
   process_token (\<lambda>n rq. Response 200 (Some (JObj []))) True 81 ''2025-01-01 00:00:00 UTC+01:00''
     (JObj [(''mint'', JStr ''A'')]) (initial_state Absent) =
     (\<lparr>processed = {JStr ''A''}, store_file = Absent,
       http_log = [\<lparr>url = SUMMARY_ENDPOINT (JStr ''A''), timeout = 30\<rparr>], console = []\<rparr>, None)"
  using empty_summary_is_unavailable [of "JObj [(''mint'', JStr ''A'')]" "JStr ''A''"
      "initial_state Absent" "\<lambda>n rq. Response 200 (Some (JObj []))" True 81
      "''2025-01-01 00:00:00 UTC+01:00''"]
  by (simp add: dict_get_def initial_state_def)

subsection \<open>At most one summary fetch per mint\<close>

lemma summary_fetches_append:
  "summary_fetches (rqs @ rqs') = summary_fetches rqs @ summary_fetches rqs'"
  by (induction rqs) (auto split: endpoint.split)

lemma fetched_once_initial: "fetched_once (initial_state store)"
  by (simp add: fetched_once_def initial_state_def)

lemma fetched_once_fetch_new_tokens:
  "fetched_once s \<Longrightarrow> fetched_once (snd (fetch_new_tokens net s))"
  by (simp add: fetched_once_def fetch_new_tokens_log summary_fetches_append)

lemma fetched_once_process_token:
  assumes "fetched_once s"
  shows "fetched_once (fst (process_token net writable threshold now_str token s))"
proof (cases "py_get token ''mint'' JNull")
  case (Inl e)
  with assms show ?thesis by (simp add: process_token_def)
next
  case (Inr mint)
  show ?thesis
  proof (cases "truthy mint \<and> hashable mint \<and> norm_key mint \<notin> processed s")
    case False
    with Inr assms show ?thesis by (auto simp: process_token_def py_key_def)
  next
    case True
    obtain summary s1 where f: "fetch_token_summary net mint s = (summary, s1)"
      by (cases "fetch_token_summary net mint s")
    with fetch_token_summary_state [of net mint s]
    have s1: "s1 = s\<lparr>http_log := http_log s @ [\<lparr>url = SUMMARY_ENDPOINT mint, timeout = 30\<rparr>]\<rparr>"
      by simp
    let ?s2 = "s1\<lparr>processed := insert (norm_key mint) (processed s1)\<rparr>"
    from assms True have inv2: "fetched_once ?s2"
      by (auto simp: fetched_once_def s1 summary_fetches_append)
    have "fetched_once (fst (handle_summary writable threshold now_str token mint summary ?s2))"
      using inv2 by (simp add: fetched_once_def handle_summary_keeps)
    with inv2 Inr True f show ?thesis
      by (simp add: process_token_def py_key_def)
  qed
qed

lemma fetched_once_process_tokens:
  "fetched_once s \<Longrightarrow> fetched_once (fst (process_tokens net writable threshold now_str tokens s))"
proof (induction tokens arbitrary: s)
  case Nil
  then show ?case by simp
next
  case (Cons token tokens)
  from Cons.prems have "fetched_once (fst (process_token net writable threshold now_str token s))"
    by (rule fetched_once_process_token)
  with Cons.IH show ?case
    by (cases "process_token net writable threshold now_str token s")
       (auto split: option.split)
qed

lemma fetched_once_poll_cycle:
  "fetched_once s \<Longrightarrow> fetched_once (fst (poll_cycle net writable threshold now_str s))"
  using fetched_once_fetch_new_tokens [of s net]
  by (cases "fetch_new_tokens net s")
     (auto simp: poll_cycle_def dest: fetched_once_process_tokens split: sum.split)

lemma fetched_once_monitor_loop:
  "fetched_once s \<Longrightarrow> fetched_once (fst (monitor_loop net writable threshold stamps s))"
proof (induction stamps arbitrary: s)
  case Nil
  then show ?case by simp
next
  case (Cons now_str later)
  from Cons.prems have "fetched_once (fst (poll_cycle net writable threshold now_str s))"
    by (rule fetched_once_poll_cycle)
  with Cons.IH show ?case
    by (cases "poll_cycle net writable threshold now_str s") (auto split: option.split)
qed

lemma distinct_count_le_1: "distinct xs \<Longrightarrow> count_list xs x \<le> 1"
  by (induction xs) auto

text \<open>
  C5. In a run of the loop from its initial state, over any number of cycles, on any
  network, whether the run is interrupted or ended by an exception, every mint occurs at
  most once among the summary requests sent.
\<close>

theorem summary_fetched_at_most_once:
  "count_list
     (summary_fetches
        (http_log (fst (monitor_loop net writable threshold stamps (initial_state store)))))
     mint \<le> 1"
proof -
  have "fetched_once (fst (monitor_loop net writable threshold stamps (initial_state store)))"
    by (rule fetched_once_monitor_loop) (rule fetched_once_initial)
  then have "distinct (summary_fetches
      (http_log (fst (monitor_loop net writable threshold stamps (initial_state store)))))"
    by (simp add: fetched_once_def distinct_map)
  then show ?thesis by (rule distinct_count_le_1)
qed

text \<open>
  C5 on two cycles in which the discovery endpoint returns the mint \<^verbatim>\<open>A\<close> both times and
  the summary endpoint reports the score 95: one summary request is sent.
\<close>

theorem summary_fetched_at_most_once_witness:
  "summary_fetches
     (http_log (fst (monitor_loop
        (\<lambda>n rq. case url rq of
            NEW_TOKENS_ENDPOINT \<Rightarrow> Response 200 (Some (JArr [JObj [(''mint'', JStr ''A'')]]))
          | SUMMARY_ENDPOINT m \<Rightarrow> Response 200 (Some (JObj [(''score_normalised'', JInt 95)])))
        True 81 [''2025-01-01 00:00:00 UTC+01:00'', ''2025-01-01 00:00:30 UTC+01:00'']
        (initial_state Absent)))) = [JStr ''A''] \<and>
   count_list
     (summary_fetches
       (http_log (fst (monitor_loop
        (\<lambda>n rq. case url rq of
            NEW_TOKENS_ENDPOINT \<Rightarrow> Response 200 (Some (JArr [JObj [(''mint'', JStr ''A'')]]))
          | SUMMARY_ENDPOINT m \<Rightarrow> Response 200 (Some (JObj [(''score_normalised'', JInt 95)])))
        True 81 [''2025-01-01 00:00:00 UTC+01:00'', ''2025-01-01 00:00:30 UTC+01:00'']
        (initial_state Absent)))))
     (JStr ''A'') \<le> 1"
  using summary_fetched_at_most_once [of
      "\<lambda>n rq. case url rq of
            NEW_TOKENS_ENDPOINT \<Rightarrow> Response 200 (Some (JArr [JObj [(''mint'', JStr ''A'')]]))
          | SUMMARY_ENDPOINT m \<Rightarrow> Response 200 (Some (JObj [(''score_normalised'', JInt 95)]))"
      True 81 "[''2025-01-01 00:00:00 UTC+01:00'', ''2025-01-01 00:00:30 UTC+01:00'']" Absent
      "JStr ''A''"]
  by (simp add: model_defs)

subsection \<open>The timeout of every request\<close>

text \<open>Every request of a run carries the timeout 30, whatever the configuration holds.\<close>

lemma process_token_timeouts:
  assumes "list_all (\<lambda>rq. timeout rq = 30) (http_log s)"
  shows "list_all (\<lambda>rq. timeout rq = 30)
           (http_log (fst (process_token net writable threshold now_str token s)))"
proof (cases "fetch_token_summary net (projr (py_get token ''mint'' JNull)) s")
  case (Pair summary s1)
  with fetch_token_summary_state [of net "projr (py_get token ''mint'' JNull)" s]
  have "http_log s1 = http_log s @
      [\<lparr>url = SUMMARY_ENDPOINT (projr (py_get token ''mint'' JNull)), timeout = 30\<rparr>]"
    by simp
  with assms Pair show ?thesis
    by (auto simp: process_token_def handle_summary_keeps split: sum.split)
qed

lemma process_tokens_timeouts:
  "list_all (\<lambda>rq. timeout rq = 30) (http_log s) \<Longrightarrow>
   list_all (\<lambda>rq. timeout rq = 30)
     (http_log (fst (process_tokens net writable threshold now_str tokens s)))"
proof (induction tokens arbitrary: s)
  case Nil
  then show ?case by simp
next
  case (Cons token tokens)
  from Cons.prems have "list_all (\<lambda>rq. timeout rq = 30)
      (http_log (fst (process_token net writable threshold now_str token s)))"
    by (rule process_token_timeouts)
  with Cons.IH show ?case
    by (cases "process_token net writable threshold now_str token s")
       (auto split: option.split)
qed

lemma poll_cycle_timeouts:
  assumes "list_all (\<lambda>rq. timeout rq = 30) (http_log s)"
  shows "list_all (\<lambda>rq. timeout rq = 30)
           (http_log (fst (poll_cycle net writable threshold now_str s)))"
proof (cases "fetch_new_tokens net s")
  case (Pair tokens s1)
  with assms fetch_new_tokens_log(1) [of net s]
  have "list_all (\<lambda>rq. timeout rq = 30) (http_log s1)" by simp
  with Pair show ?thesis
    by (auto simp: poll_cycle_def dest: process_tokens_timeouts split: sum.split)
qed

lemma monitor_loop_timeouts:
  "list_all (\<lambda>rq. timeout rq = 30) (http_log s) \<Longrightarrow>
   list_all (\<lambda>rq. timeout rq = 30)
     (http_log (fst (monitor_loop net writable threshold stamps s)))"
proof (induction stamps arbitrary: s)
  case Nil
  then show ?case by simp
next
  case (Cons now_str later)
  from Cons.prems have "list_all (\<lambda>rq. timeout rq = 30)
      (http_log (fst (poll_cycle net writable threshold now_str s)))"
    by (rule poll_cycle_timeouts)
  with Cons.IH show ?case
    by (cases "poll_cycle net writable threshold now_str s") (auto split: option.split)
qed

lemma every_request_timeout_30:
  "list_all (\<lambda>rq. timeout rq = 30)
     (http_log (fst (monitor_loop net writable threshold stamps (initial_state store))))"
  by (rule monitor_loop_timeouts) (simp add: initial_state_def)

section \<open>Idempotence of the record store\<close>

lemma entries_with_mint_dict:
  "item \<in> set (entries_with_mint k items) \<Longrightarrow> item \<in> set items \<and> (\<exists>kvs. item = JObj kvs)"
  by (cases item) (auto simp: entries_with_mint_def)

lemma existing_mints_member:
  "existing_mints items = Inr mints \<Longrightarrow> (k \<in> mints) = (entries_with_mint k items \<noteq> [])"
  by (induction items arbitrary: mints rule: existing_mints.induct)
     (auto simp: entries_with_mint_def split: sum.splits)

lemma existing_mints_snoc:
  "existing_mints items = Inr mints \<Longrightarrow> py_key (dict_get entry ''mint'' JNull) = Inr k \<Longrightarrow>
     existing_mints (items @ [JObj entry]) = Inr (insert k mints)"
  by (induction items arbitrary: mints rule: existing_mints.induct)
     (auto split: sum.splits)

text \<open>
  A call that returns has read a list, and either found the mint and left the file alone,
  or not found it and written the list with the entry added at the end.
\<close>

lemma append_returns_cases:
  assumes "append_if_not_exists writable f entry = Inr f1"
  obtains items mints k where "load_json f = Inr (JArr items)" and "existing_mints items = Inr mints"
    and "py_key (dict_get entry ''mint'' JNull) = Inr k"
    and "k \<in> mints \<and> f1 = f \<and> f = Content (JArr items) \<or>
         k \<notin> mints \<and> f1 = Content (JArr (items @ [JObj entry]))"
proof -
  from assms obtain existing where ex: "load_json f = Inr existing"
    by (auto simp: append_if_not_exists_def split: sum.splits)
  from assms ex obtain its where its: "py_iter existing = Inr its"
    by (auto simp: append_if_not_exists_def split: sum.splits)
  from assms ex its obtain mints where m: "existing_mints its = Inr mints"
    by (auto simp: append_if_not_exists_def split: sum.splits)
  from assms ex its m obtain k where k: "py_key (dict_get entry ''mint'' JNull) = Inr k"
    by (auto simp: append_if_not_exists_def split: sum.splits)
  have arr: "\<exists>items. existing = JArr items"
  proof (cases "k \<in> mints")
    case True
    then have "entries_with_mint k its \<noteq> []" using existing_mints_member [OF m] by simp
    then obtain item where "item \<in> set (entries_with_mint k its)"
      by (cases "entries_with_mint k its") auto
    then have "item \<in> set its" and "\<exists>kvs. item = JObj kvs"
      by (auto dest: entries_with_mint_dict)
    with its show ?thesis by (cases existing) auto
  next
    case False
    with assms ex its m k show ?thesis
      by (cases existing) (auto simp: append_if_not_exists_def)
  qed
  then obtain items where e: "existing = JArr items" by blast
  with its have i: "its = items" by simp
  have "k \<in> mints \<and> f1 = f \<and> f = Content (JArr items) \<or>
         k \<notin> mints \<and> f1 = Content (JArr (items @ [JObj entry]))"
  proof (cases "k \<in> mints")
    case True
    with assms ex its m k have "f1 = f" by (simp add: append_if_not_exists_def)
    moreover have "f = Content (JArr items)"
    proof -
      from True have "entries_with_mint k items \<noteq> []" using existing_mints_member [OF m] i by simp
      then have "items \<noteq> []" by (auto simp: entries_with_mint_def)
      with ex e show ?thesis by (cases f) (auto simp: load_json_def)
    qed
    ultimately show ?thesis using True by simp
  next
    case False
    with assms ex its m k e show ?thesis
      by (auto simp: append_if_not_exists_def save_json_def split: if_splits)
  qed
  with that ex e m i k show ?thesis by blast
qed

text \<open>
  Whenever a call of \<^verbatim>\<open>append_if_not_exists\<close> returns, the file was read as a list and
  now holds a list; the entries stored under the mint of the entry are those the file had
  before, or the entry alone if it had none; and a further call with an entry of the same
  mint returns and leaves the file as it is, whether or not a write would succeed.
\<close>

lemma append_same_mint_idempotent:
  assumes "append_if_not_exists writable f entry1 = Inr f1"
    and "py_key (dict_get entry2 ''mint'' JNull) = py_key (dict_get entry1 ''mint'' JNull)"
  shows "\<exists>items items1 k.
           load_json f = Inr (JArr items) \<and> f1 = Content (JArr items1) \<and>
           py_key (dict_get entry1 ''mint'' JNull) = Inr k \<and>
           entries_with_mint k items1 =
             (if entries_with_mint k items = [] then [JObj entry1] else entries_with_mint k items) \<and>
           append_if_not_exists writable2 f1 entry2 = Inr f1"
proof -
  from assms(1) obtain items mints k where l: "load_json f = Inr (JArr items)"
    and m: "existing_mints items = Inr mints"
    and k: "py_key (dict_get entry1 ''mint'' JNull) = Inr k"
    and c: "k \<in> mints \<and> f1 = f \<and> f = Content (JArr items) \<or>
         k \<notin> mints \<and> f1 = Content (JArr (items @ [JObj entry1]))"
    by (rule append_returns_cases)
  from c show ?thesis
  proof
    assume a: "k \<in> mints \<and> f1 = f \<and> f = Content (JArr items)"
    then have "entries_with_mint k items \<noteq> []" using existing_mints_member [OF m] by simp
    moreover from a l m k assms(2) have "append_if_not_exists writable2 f1 entry2 = Inr f1"
      by (simp add: append_if_not_exists_def)
    ultimately show ?thesis using a l k by auto
  next
    assume a: "k \<notin> mints \<and> f1 = Content (JArr (items @ [JObj entry1]))"
    then have none: "entries_with_mint k items = []" using existing_mints_member [OF m] by simp
    then have "entries_with_mint k (items @ [JObj entry1]) = [JObj entry1]"
      using k by (simp add: entries_with_mint_def)
    moreover have "append_if_not_exists writable2 f1 entry2 = Inr f1"
      using a existing_mints_snoc [OF m k] k assms(2)
      by (simp add: append_if_not_exists_def load_json_def)
    ultimately show ?thesis using a l k none by auto
  qed
qed

subsection \<open>On a store that respects its invariant\<close>

lemma py_key_cases: "py_key v = Inl TypeError \<or> py_key v = Inr (norm_key v)"
  by (simp add: py_key_def)

lemma existing_mints_stored:
  "Inl TypeError \<notin> set (stored_mints items) \<Longrightarrow>
     existing_mints items = Inr {k. Inr k \<in> set (stored_mints items)}"
proof (induction items rule: stored_mints.induct)
  case 1
  then show ?case by simp
next
  case (2 kvs items)
  then show ?case
    using py_key_cases [of "dict_get kvs ''mint'' JNull"] by (auto split: sum.splits)
qed simp_all

lemma entries_with_mint_count:
  "length (entries_with_mint k items) = count_list (stored_mints items) (Inr k)"
  by (induction items rule: stored_mints.induct) (simp_all add: entries_with_mint_def)

lemma stored_mints_snoc:
  "stored_mints (items @ [JObj entry]) = stored_mints items @ [py_key (dict_get entry ''mint'' JNull)]"
  by (induction items rule: stored_mints.induct) simp_all

lemma distinct_count_1: "distinct xs \<Longrightarrow> x \<in> set xs \<Longrightarrow> count_list xs x = 1"
  by (induction xs) auto

lemma well_formed_load:
  assumes "well_formed_store f"
  obtains items where "load_json f = Inr (JArr items)"
    and "Inl TypeError \<notin> set (stored_mints items)" and "distinct (stored_mints items)"
    and "f = Content (JArr items) \<or> items = []"
  using assms
  by (cases f) (auto simp: well_formed_store_def load_json_def split: json.splits)

text \<open>
  On a backing file that respects the invariant of the store, with a write that succeeds:
  the first call returns and leaves a list that respects the invariant and holds exactly
  one entry with the mint, and a second call with an entry of the same mint returns and
  leaves the file as it is.
\<close>

lemma append_twice_well_formed:
  assumes wf: "well_formed_store f"
    and h: "hashable (dict_get entry1 ''mint'' JNull)"
    and same: "py_key (dict_get entry2 ''mint'' JNull) = py_key (dict_get entry1 ''mint'' JNull)"
  shows "\<exists>items1.
           append_if_not_exists True f entry1 = Inr (Content (JArr items1)) \<and>
           append_if_not_exists writable2 (Content (JArr items1)) entry2 = Inr (Content (JArr items1)) \<and>
           length (entries_with_mint (norm_key (dict_get entry1 ''mint'' JNull)) items1) = 1 \<and>
           well_formed_store (Content (JArr items1))"
proof -
  let ?k = "norm_key (dict_get entry1 ''mint'' JNull)"
  from h have k: "py_key (dict_get entry1 ''mint'' JNull) = Inr ?k" by (simp add: py_key_def)
  from wf obtain items where l: "load_json f = Inr (JArr items)"
    and ok: "Inl TypeError \<notin> set (stored_mints items)" and d: "distinct (stored_mints items)"
    and c: "f = Content (JArr items) \<or> items = []"
    by (rule well_formed_load)
  from ok have m: "existing_mints items = Inr {k. Inr k \<in> set (stored_mints items)}"
    by (rule existing_mints_stored)
  show ?thesis
  proof (cases "Inr ?k \<in> set (stored_mints items)")
    case True
    then have "items \<noteq> []" by auto
    with c have f: "f = Content (JArr items)" by simp
    from True l m k have r: "append_if_not_exists True f entry1 = Inr f"
      by (simp add: append_if_not_exists_def)
    from append_same_mint_idempotent [OF r same, of writable2]
    have second: "append_if_not_exists writable2 f entry2 = Inr f" by blast
    from d True have "count_list (stored_mints items) (Inr ?k) = 1"
      by (rule distinct_count_1)
    then have "length (entries_with_mint ?k items) = 1" by (simp add: entries_with_mint_count)
    with r second f wf show ?thesis by auto
  next
    case False
    with l m k have r: "append_if_not_exists True f entry1 = Inr (Content (JArr (items @ [JObj entry1])))"
      by (simp add: append_if_not_exists_def save_json_def)
    from append_same_mint_idempotent [OF r same, of writable2]
    have second: "append_if_not_exists writable2 (Content (JArr (items @ [JObj entry1]))) entry2 =
        Inr (Content (JArr (items @ [JObj entry1])))" by blast
    from False have "count_list (stored_mints (items @ [JObj entry1])) (Inr ?k) = 1"
      by (simp add: stored_mints_snoc k count_list_0_iff)
    then have one: "length (entries_with_mint ?k (items @ [JObj entry1])) = 1"
      by (simp add: entries_with_mint_count)
    from False ok d have "well_formed_store (Content (JArr (items @ [JObj entry1])))"
      by (simp add: well_formed_store_def stored_mints_snoc k)
    with r second one show ?thesis by blast
  qed
qed

subsection \<open>On a file that holds no list\<close>

text \<open>
  C2 fails on the code for a backing file whose JSON document is not a list. On the file
  \<^verbatim>\<open>{}\<close>, \<^verbatim>\<open>load_json\<close> returns the dictionary, and \<^verbatim>\<open>append_if_not_exists\<close> with an
  entry for the mint \<^verbatim>\<open>A\<close> raises AttributeError at \<^verbatim>\<open>existing.append\<close>, however often it
  is called: no entry is stored.
\<close>

theorem append_to_object_file_raises:
  "load_json (Content (JObj [])) = Inr (JObj []) \<and>
   append_if_not_exists writable (Content (JObj [])) [(''mint'', JStr ''A'')] = Inl AttributeError"
  by (simp add: append_if_not_exists_def load_json_def py_key_def dict_get_def)

section \<open>Precedence of the symbol and the creator\<close>

lemma and_then_Inr_iff:
  "and_then m f = Inr y \<longleftrightarrow> (\<exists>x. m = Inr x \<and> f x = Inr y)"
  by (cases m) (simp_all add: and_then_def)

text \<open>
  C8, as the code has it. In the entry and in the report built for a token (a dictionary),
  the symbol and the creator are the token's values when these are true in Python's sense;
  when the token's value is missing, \<^verbatim>\<open>None\<close>, the empty string or another false value,
  they are the values of the summary: \<^verbatim>\<open>tokenMeta.symbol\<close> with the default
  \<^verbatim>\<open>""\<close>, and \<^verbatim>\<open>creator\<close> with the default \<^verbatim>\<open>""\<close> in the entry and
  \<^verbatim>\<open>"Unknown"\<close> in the report.
\<close>

theorem symbol_creator_precedence:
  assumes "make_entry (JObj token) summary mint score_norm risk now_str = Inr entry"
    and "format_report (JObj token) summary now_str threshold = Inr rep"
  shows
    "(truthy (dict_get token ''symbol'' JNull) \<longrightarrow>
        map_of entry ''symbol'' = Some (dict_get token ''symbol'' JNull) \<and>
        r_symbol rep = dict_get token ''symbol'' JNull) \<and>
     (\<not> truthy (dict_get token ''symbol'' JNull) \<longrightarrow>
        (\<exists>v. token_meta_get summary ''symbol'' (JStr []) = Inr v \<and>
             map_of entry ''symbol'' = Some v \<and> r_symbol rep = v)) \<and>
     (truthy (dict_get token ''creator'' JNull) \<longrightarrow>
        map_of entry ''creator'' = Some (dict_get token ''creator'' JNull) \<and>
        r_creator rep = dict_get token ''creator'' JNull) \<and>
     (\<not> truthy (dict_get token ''creator'' JNull) \<longrightarrow>
        (\<exists>v w. py_get summary ''creator'' (JStr []) = Inr v \<and> map_of entry ''creator'' = Some v \<and>
               py_get summary ''creator'' (JStr ''Unknown'') = Inr w \<and> r_creator rep = w))"
  using assms
  by (auto simp: make_entry_def format_report_def and_then_Inr_iff py_or_def split: if_splits)

text \<open>
  C8 on a token with the symbol \<^verbatim>\<open>TKN\<close> and no creator, and a summary with the symbol
  \<^verbatim>\<open>XYZ\<close> and the creator \<^verbatim>\<open>W\<close>: the symbol is the token's, the creator the
  summary's.
\<close>

theorem symbol_creator_precedence_witness:
  "truthy (dict_get [(''mint'', JStr ''A''), (''symbol'', JStr ''TKN'')] ''symbol'' JNull) \<and>
   \<not> truthy (dict_get [(''mint'', JStr ''A''), (''symbol'', JStr ''TKN'')] ''creator'' JNull) \<and>
   make_entry (JObj [(''mint'', JStr ''A''), (''symbol'', JStr ''TKN'')])
     (JObj [(''tokenMeta'', JObj [(''symbol'', JStr ''XYZ'')]), (''creator'', JStr ''W'')])
     (JStr ''A'') JNull UNKNOWN ''2025-01-01 00:00:00 UTC+01:00'' =
     Inr [(''mint'', JStr ''A''), (''name'', JStr []), (''symbol'', JStr ''TKN''),
          (''creator'', JStr ''W''), (''score_normalised'', JNull), (''risk'', JStr ''UNKNOWN''),
          (''risks'', JArr []), (''detected_at'', JStr ''2025-01-01 00:00:00 UTC+01:00'')] \<and>
   format_report (JObj [(''mint'', JStr ''A''), (''symbol'', JStr ''TKN'')])
     (JObj [(''tokenMeta'', JObj [(''symbol'', JStr ''XYZ'')]), (''creator'', JStr ''W'')])
     ''2025-01-01 00:00:00 UTC+01:00'' 81 =
     Inr \<lparr>r_name = JStr ''TKN'', r_symbol = JStr ''TKN'', r_mint = JStr ''A'',
          r_creator = JStr ''W'', r_detected_at = ''2025-01-01 00:00:00 UTC+01:00'',
          r_score_display = JStr ''N/A'', r_risk = UNKNOWN,
          r_recommendation = ''CAUTION_ADVISED'', r_reasons = []\<rparr>"
proof -
  have e: "make_entry (JObj [(''mint'', JStr ''A''), (''symbol'', JStr ''TKN'')])
     (JObj [(''tokenMeta'', JObj [(''symbol'', JStr ''XYZ'')]), (''creator'', JStr ''W'')])
     (JStr ''A'') JNull UNKNOWN ''2025-01-01 00:00:00 UTC+01:00'' =
     Inr [(''mint'', JStr ''A''), (''name'', JStr []), (''symbol'', JStr ''TKN''),
          (''creator'', JStr ''W''), (''score_normalised'', JNull), (''risk'', JStr ''UNKNOWN''),
          (''risks'', JArr []), (''detected_at'', JStr ''2025-01-01 00:00:00 UTC+01:00'')]"
    by (simp add: make_entry_def token_meta_get_def and_then_def py_or_def dict_get_def)
  have r: "format_report (JObj [(''mint'', JStr ''A''), (''symbol'', JStr ''TKN'')])
     (JObj [(''tokenMeta'', JObj [(''symbol'', JStr ''XYZ'')]), (''creator'', JStr ''W'')])
     ''2025-01-01 00:00:00 UTC+01:00'' 81 =
     Inr \<lparr>r_name = JStr ''TKN'', r_symbol = JStr ''TKN'', r_mint = JStr ''A'',
          r_creator = JStr ''W'', r_detected_at = ''2025-01-01 00:00:00 UTC+01:00'',
          r_score_display = JStr ''N/A'', r_risk = UNKNOWN,
          r_recommendation = ''CAUTION_ADVISED'', r_reasons = []\<rparr>"
    by (simp add: format_report_def token_meta_get_def and_then_def py_or_def dict_get_def
        classify_risk_def)
  from symbol_creator_precedence [OF e r] e r show ?thesis
    by (simp add: dict_get_def)
qed

text \<open>
  C8 as the specification words it, with the fallback exactly when the token's value is
  absent, fails: a token whose symbol is present and is the empty string gets the symbol
  of the summary, in the entry and in the report.
\<close>

theorem symbol_fallback_counterexample:
  "map_of [(''mint'', JStr ''A''), (''symbol'', JStr [])] ''symbol'' = Some (JStr []) \<and>
   make_entry (JObj [(''mint'', JStr ''A''), (''symbol'', JStr [])])
     (JObj [(''tokenMeta'', JObj [(''symbol'', JStr ''XYZ'')])])
     (JStr ''A'') JNull UNKNOWN ''2025-01-01 00:00:00 UTC+01:00'' =
     Inr [(''mint'', JStr ''A''), (''name'', JStr []), (''symbol'', JStr ''XYZ''),
          (''creator'', JStr []), (''score_normalised'', JNull), (''risk'', JStr ''UNKNOWN''),
          (''risks'', JArr []), (''detected_at'', JStr ''2025-01-01 00:00:00 UTC+01:00'')] \<and>
   and_then
     (format_report (JObj [(''mint'', JStr ''A''), (''symbol'', JStr [])])
        (JObj [(''tokenMeta'', JObj [(''symbol'', JStr ''XYZ'')])])
        ''2025-01-01 00:00:00 UTC+01:00'' 81)
     (\<lambda>rep. Inr (r_symbol rep)) = Inr (JStr ''XYZ'')"
  by (simp add: make_entry_def format_report_def token_meta_get_def and_then_def py_or_def
      dict_get_def classify_risk_def)

section \<open>Bounds of the configuration edits\<close>

lemma edit_step_rejects:
  assumes "config st = JObj kvs"
    and "map_of kvs ''score_threshold'' = Some th"
    and "map_of kvs ''polling_interval'' = Some iv"
    and "map_of kvs ''api_timeout'' = Some tmo"
  shows "\<not> (1 \<le> n \<and> n \<le> 100) \<Longrightarrow>
           edit_configuration_step writable ''1'' (Some n) st =
             Inr (st\<lparr>messages := messages st @ [Menu th iv tmo, ThresholdOutOfRange]\<rparr>)"
    and "\<not> (5 \<le> n \<and> n \<le> 300) \<Longrightarrow>
           edit_configuration_step writable ''2'' (Some n) st =
             Inr (st\<lparr>messages := messages st @ [Menu th iv tmo, IntervalOutOfRange]\<rparr>)"
    and "\<not> (10 \<le> n \<and> n \<le> 120) \<Longrightarrow>
           edit_configuration_step writable ''3'' (Some n) st =
             Inr (st\<lparr>messages := messages st @ [Menu th iv tmo, TimeoutOutOfRange]\<rparr>)"
  using assms by (auto simp: edit_configuration_step_def and_then_simps say_def Let_def)

lemma edit_step_accepts:
  assumes "config st = JObj kvs"
    and "map_of kvs ''score_threshold'' = Some th"
    and "map_of kvs ''polling_interval'' = Some iv"
    and "map_of kvs ''api_timeout'' = Some tmo"
  shows "1 \<le> n \<and> n \<le> 100 \<Longrightarrow>
           edit_configuration_step True ''1'' (Some n) st =
             Inr (st\<lparr>config := JObj (AList.update ''score_threshold'' (JInt n) kvs),
                    default_dict :=
                      (if config_is_default st
                       then JObj (AList.update ''score_threshold'' (JInt n) kvs)
                       else default_dict st),
                    config_file := Content (JObj (AList.update ''score_threshold'' (JInt n) kvs)),
                    messages := messages st @ [Menu th iv tmo, ThresholdUpdated n]\<rparr>)"
    and "5 \<le> n \<and> n \<le> 300 \<Longrightarrow>
           edit_configuration_step True ''2'' (Some n) st =
             Inr (st\<lparr>config := JObj (AList.update ''polling_interval'' (JInt n) kvs),
                    default_dict :=
                      (if config_is_default st
                       then JObj (AList.update ''polling_interval'' (JInt n) kvs)
                       else default_dict st),
                    config_file := Content (JObj (AList.update ''polling_interval'' (JInt n) kvs)),
                    messages := messages st @ [Menu th iv tmo, IntervalUpdated n]\<rparr>)"
    and "10 \<le> n \<and> n \<le> 120 \<Longrightarrow>
           edit_configuration_step True ''3'' (Some n) st =
             Inr (st\<lparr>config := JObj (AList.update ''api_timeout'' (JInt n) kvs),
                    default_dict :=
                      (if config_is_default st
                       then JObj (AList.update ''api_timeout'' (JInt n) kvs)
                       else default_dict st),
                    config_file := Content (JObj (AList.update ''api_timeout'' (JInt n) kvs)),
                    messages := messages st @ [Menu th iv tmo, TimeoutUpdated n]\<rparr>)"
  using assms
  by (simp_all add: edit_configuration_step_def and_then_simps say_def update_setting_def Let_def
      save_config_def)

text \<open>
  C7. With a configuration that has the three keys (so that the menu can be printed), an
  edit with a number outside the bounds 1 to 100 of the threshold, 5 to 300 of the polling
  interval or 10 to 120 of the timeout leaves the dictionary, the defaults and the file as
  they are and prints the out-of-range message; an edit with a number inside the bounds
  sets the key (in the defaults too when the dictionary is the defaults object), writes
  the dictionary to the file (here the write succeeds) and prints the confirmation.
\<close>

theorem edit_bounds_enforced:
  assumes "config st = JObj kvs"
    and "map_of kvs ''score_threshold'' = Some th"
    and "map_of kvs ''polling_interval'' = Some iv"
    and "map_of kvs ''api_timeout'' = Some tmo"
  shows
    "(\<not> (1 \<le> n \<and> n \<le> 100) \<longrightarrow>
        edit_configuration_step writable ''1'' (Some n) st =
          Inr (st\<lparr>messages := messages st @ [Menu th iv tmo, ThresholdOutOfRange]\<rparr>)) \<and>
     (\<not> (5 \<le> n \<and> n \<le> 300) \<longrightarrow>
        edit_configuration_step writable ''2'' (Some n) st =
          Inr (st\<lparr>messages := messages st @ [Menu th iv tmo, IntervalOutOfRange]\<rparr>)) \<and>
     (\<not> (10 \<le> n \<and> n \<le> 120) \<longrightarrow>
        edit_configuration_step writable ''3'' (Some n) st =
          Inr (st\<lparr>messages := messages st @ [Menu th iv tmo, TimeoutOutOfRange]\<rparr>)) \<and>
     (1 \<le> n \<and> n \<le> 100 \<longrightarrow>
        edit_configuration_step True ''1'' (Some n) st =
          Inr (st\<lparr>config := JObj (AList.update ''score_threshold'' (JInt n) kvs),
                 default_dict :=
                   (if config_is_default st
                    then JObj (AList.update ''score_threshold'' (JInt n) kvs)
                    else default_dict st),
                 config_file := Content (JObj (AList.update ''score_threshold'' (JInt n) kvs)),
                 messages := messages st @ [Menu th iv tmo, ThresholdUpdated n]\<rparr>)) \<and>
     (5 \<le> n \<and> n \<le> 300 \<longrightarrow>
        edit_configuration_step True ''2'' (Some n) st =
          Inr (st\<lparr>config := JObj (AList.update ''polling_interval'' (JInt n) kvs),
                 default_dict :=
                   (if config_is_default st
                    then JObj (AList.update ''polling_interval'' (JInt n) kvs)
                    else default_dict st),
                 config_file := Content (JObj (AList.update ''polling_interval'' (JInt n) kvs)),
                 messages := messages st @ [Menu th iv tmo, IntervalUpdated n]\<rparr>)) \<and>
     (10 \<le> n \<and> n \<le> 120 \<longrightarrow>
        edit_configuration_step True ''3'' (Some n) st =
          Inr (st\<lparr>config := JObj (AList.update ''api_timeout'' (JInt n) kvs),
                 default_dict :=
                   (if config_is_default st
                    then JObj (AList.update ''api_timeout'' (JInt n) kvs)
                    else default_dict st),
                 config_file := Content (JObj (AList.update ''api_timeout'' (JInt n) kvs)),
                 messages := messages st @ [Menu th iv tmo, TimeoutUpdated n]\<rparr>))"
  using edit_step_rejects [OF assms, of n writable] edit_step_accepts [OF assms, of n]
  by blast

text \<open>
  C7 on a configuration read from the file, equal to the defaults as loaded, and the number
  150: it is refused as a threshold and accepted and saved as a polling interval.
\<close>

theorem edit_bounds_enforced_witness:
  "edit_configuration_step True ''1'' (Some 150)
     \<lparr>config = JObj [(''score_threshold'', JInt 81), (''polling_interval'', JInt 30),
                     (''api_timeout'', JInt 30)],
      config_is_default = False,
      default_dict = JObj [(''score_threshold'', JInt 81), (''polling_interval'', JInt 30),
                     (''api_timeout'', JInt 30)],
      config_file = Content (JObj [(''score_threshold'', JInt 81), (''polling_interval'', JInt 30),
                     (''api_timeout'', JInt 30)]),
      messages = []\<rparr> =
   Inr \<lparr>config = JObj [(''score_threshold'', JInt 81), (''polling_interval'', JInt 30),
                     (''api_timeout'', JInt 30)],
      config_is_default = False,
      default_dict = JObj [(''score_threshold'', JInt 81), (''polling_interval'', JInt 30),
                     (''api_timeout'', JInt 30)],
      config_file = Content (JObj [(''score_threshold'', JInt 81), (''polling_interval'', JInt 30),
                     (''api_timeout'', JInt 30)]),
      messages = [Menu (JInt 81) (JInt 30) (JInt 30), ThresholdOutOfRange]\<rparr> \<and>
   edit_configuration_step True ''2'' (Some 150)
     \<lparr>config = JObj [(''score_threshold'', JInt 81), (''polling_interval'', JInt 30),
                     (''api_timeout'', JInt 30)],
      config_is_default = False,
      default_dict = JObj [(''score_threshold'', JInt 81), (''polling_interval'', JInt 30),
                     (''api_timeout'', JInt 30)],
      config_file = Content (JObj [(''score_threshold'', JInt 81), (''polling_interval'', JInt 30),
                     (''api_timeout'', JInt 30)]),
      messages = []\<rparr> =
   Inr \<lparr>config = JObj [(''score_threshold'', JInt 81), (''polling_interval'', JInt 150),
                     (''api_timeout'', JInt 30)],
      config_is_default = False,
      default_dict = JObj [(''score_threshold'', JInt 81), (''polling_interval'', JInt 30),
                     (''api_timeout'', JInt 30)],
      config_file = Content (JObj [(''score_threshold'', JInt 81), (''polling_interval'', JInt 150),
                     (''api_timeout'', JInt 30)]),
      messages = [Menu (JInt 81) (JInt 30) (JInt 30), IntervalUpdated 150]\<rparr>"
  using edit_bounds_enforced [of
      "\<lparr>config = JObj [(''score_threshold'', JInt 81), (''polling_interval'', JInt 30),
                     (''api_timeout'', JInt 30)],
      config_is_default = False,
      default_dict = JObj [(''score_threshold'', JInt 81), (''polling_interval'', JInt 30),
                     (''api_timeout'', JInt 30)],
      config_file = Content (JObj [(''score_threshold'', JInt 81), (''polling_interval'', JInt 30),
                     (''api_timeout'', JInt 30)]),
      messages = []\<rparr>"
      "[(''score_threshold'', JInt 81), (''polling_interval'', JInt 30), (''api_timeout'', JInt 30)]"
      "JInt 81" "JInt 30" "JInt 30" 150 True]
  by simp

text \<open>When the number is accepted and the write fails, the OSError reaches the caller.\<close>

lemma edit_step_write_failure:
  assumes "config st = JObj kvs"
    and "map_of kvs ''score_threshold'' = Some th"
    and "map_of kvs ''polling_interval'' = Some iv"
    and "map_of kvs ''api_timeout'' = Some tmo"
    and "1 \<le> n \<and> n \<le> 100"
  shows "edit_configuration_step False ''1'' (Some n) st = Inl OSError"
  using assms
  by (simp add: edit_configuration_step_def and_then_simps say_def update_setting_def Let_def
      save_config_def)

text \<open>
  The defaults follow an edit made while the configuration file does not parse: the
  threshold 60 is assigned into the defaults object and written to the file, and if the
  file does not parse again later in the same run, the monitor starts with 60, not 81.
\<close>

lemma defaults_follow_edit:
  "edit_configuration True [(''1'', Some 60)] DEFAULT_CONFIG Malformed =
     Inr \<lparr>config = JObj [(''score_threshold'', JInt 60), (''polling_interval'', JInt 30),
                         (''api_timeout'', JInt 30)],
          config_is_default = True,
          default_dict = JObj [(''score_threshold'', JInt 60), (''polling_interval'', JInt 30),
                         (''api_timeout'', JInt 30)],
          config_file = Content (JObj [(''score_threshold'', JInt 60),
                         (''polling_interval'', JInt 30), (''api_timeout'', JInt 30)]),
          messages = [Menu (JInt 81) (JInt 30) (JInt 30), ThresholdUpdated 60]\<rparr> \<and>
   start_monitoring_config True
     (JObj [(''score_threshold'', JInt 60), (''polling_interval'', JInt 30),
            (''api_timeout'', JInt 30)]) Malformed =
     Inr ((JInt 60, JInt 30), Malformed)"
  by (simp add: edit_configuration_def edit_configuration_step_def update_setting_def
      save_config_def say_def load_config_def start_monitoring_config_def DEFAULT_CONFIG_def
      and_then_simps Let_def)

end
